theory Spec2Isabelle
  imports Main "HOL-Library.Word"
begin

section \<open>The accounts table\<close>

text \<open>
  \<^verbatim>\<open>CREATE TABLE IF NOT EXISTS accounts (id UUID PRIMARY KEY, balance INT)\<close>

  An account id is a 128-bit value. A balance is a Python \<^verbatim>\<open>int\<close> on the
  client's side of every comparison and an integer column in the store; it is modelled as
  an unbounded integer, so the range of the column is not part of the model. The table is
  the list of its rows. The primary key makes the ids of a table distinct; the theorems
  that need it assume it.
\<close>

type_synonym uuid = "128 word"

type_synonym accounts = "(uuid \<times> int) list"

text \<open>\<^verbatim>\<open>SELECT balance FROM accounts WHERE id = %s\<close>: the balances of the matching rows.\<close>

definition select_balance :: "accounts \<Rightarrow> uuid \<Rightarrow> int list" where
  "select_balance rows k = map snd (filter (\<lambda>r. fst r = k) rows)"

text \<open>\<^verbatim>\<open>cur.fetchone()\<close>: the first row of the result, or \<^verbatim>\<open>None\<close>.\<close>

definition fetchone :: "'a list \<Rightarrow> 'a option" where
  "fetchone rs = (case rs of [] \<Rightarrow> None | r # _ \<Rightarrow> Some r)"

text \<open>\<^verbatim>\<open>UPDATE accounts SET balance = f(balance) WHERE id = %s\<close>: every matching row
  changes, a statement that matches no row changes nothing and is no error.\<close>

definition update_balance :: "(int \<Rightarrow> int) \<Rightarrow> uuid \<Rightarrow> accounts \<Rightarrow> accounts" where
  "update_balance f k rows = map (\<lambda>(i, b). if i = k then (i, f b) else (i, b)) rows"


section \<open>The session\<close>

text \<open>
  A connection holds the rows as committed in the store and the rows as the open
  transaction sees them; statements act on the second. \<open>env\<close> is everything else an
  operation can read and change and no rollback restores: its own closure, the activity of
  other sessions that makes the store report a conflict.

  The driver is not part of the repository. Its calls are given the meaning the source's
  comments rely on: \<^verbatim>\<open>conn.rollback()\<close> (``we roll back the current transaction'') and
  the exit of \<^verbatim>\<open>with conn.transaction()\<close> with an exception discard the transaction's
  writes, the exit without an exception commits them (``leaving this block the transaction
  will commit or rollback (if leaving with an exception)''). These calls themselves are
  taken to be allowed where the source makes them and to raise nothing.
\<close>

record 'e conn =
  committed :: accounts
  working :: accounts
  env :: 'e



text \<open>The balance a session reads for an id: that of the first matching row.\<close>

definition balance_of :: "'e conn \<Rightarrow> uuid \<Rightarrow> int option" where
  "balance_of c k = fetchone (select_balance (working c) k)"

section \<open>Exceptions\<close>

text \<open>
  \<^item> \<open>SerializationFailure\<close>: \<^verbatim>\<open>psycopg.errors.SerializationFailure\<close>, with its message;
  \<^item> \<open>PsycopgError\<close>: any other \<^verbatim>\<open>psycopg.Error\<close>, with its message;
  \<^item> \<open>RuntimeError frm from_balance amount\<close>: the error of \<^verbatim>\<open>transfer_funds\<close>,
    \<^verbatim>\<open>RuntimeError(f"insufficient funds in {frm}: have {from_balance}, need {amount}")\<close>,
    with the three values its message is built from;
  \<^item> \<open>TypeError\<close>: subscripting \<^verbatim>\<open>None\<close>, when \<^verbatim>\<open>fetchone()\<close> found no row;
  \<^item> \<open>ValueError max_retries\<close>: the error of \<^verbatim>\<open>run_transaction\<close>,
    \<^verbatim>\<open>ValueError(f"transaction did not succeed after {max_retries} retries")\<close>;
  \<^item> \<open>OtherException\<close>: any other exception an operation raises.
\<close>

datatype exn =
    SerializationFailure string
  | PsycopgError string
  | RuntimeError uuid int int
  | TypeError
  | ValueError int
  | OtherException string



section \<open>transfer_funds\<close>

text \<open>
  \<^verbatim>\<open>
  def transfer_funds(conn, frm, to, amount):
      with conn.cursor() as cur:
          cur.execute("SELECT balance FROM accounts WHERE id = %s", (frm,))
          from_balance = cur.fetchone()[0]
          if from_balance < amount:
              raise RuntimeError(
                  f"insufficient funds in {frm}: have {from_balance}, need {amount}")
          cur.execute("UPDATE accounts SET balance = balance - %s WHERE id = %s", (amount, frm))
          cur.execute("UPDATE accounts SET balance = balance + %s WHERE id = %s", (amount, to))
  \<close>
  The result is the exception raised (\<open>None\<close> when the function returns) and the
  connection as the call leaves it. The three statements are taken to be executed by the
  store: an error of the store is an exception of the operation in \<open>run_transaction\<close>
  below, where the operation is arbitrary.
\<close>

definition transfer_funds :: "'e conn \<Rightarrow> uuid \<Rightarrow> uuid \<Rightarrow> int \<Rightarrow> exn option \<times> 'e conn" where
  "transfer_funds conn frm to amount =
     (case fetchone (select_balance (working conn) frm) of
        None \<Rightarrow> (Some TypeError, conn)
      | Some from_balance \<Rightarrow>
          if from_balance < amount then (Some (RuntimeError frm from_balance amount), conn)
          else
            (let rows1 = update_balance (\<lambda>balance. balance - amount) frm (working conn);
                 rows2 = update_balance (\<lambda>balance. balance + amount) to rows1
             in (None, conn\<lparr>working := rows2\<rparr>)))"

section \<open>run_transaction\<close>







section \<open>Runs of conflicts\<close>




section \<open>The demonstration's accounts\<close>

text \<open>
  \<^verbatim>\<open>UPSERT INTO accounts (id, balance) VALUES (%s, 1000), (%s, 250)\<close>: the two rows
  \<^verbatim>\<open>create_accounts\<close> stores, the ids 1 and 2 standing for its two random uuids, in a
  session with nothing uncommitted.
\<close>

definition demo :: "'e \<Rightarrow> 'e conn" where
  "demo x = \<lparr>committed = [(1, 1000), (2, 250)], working = [(1, 1000), (2, 250)], env = x\<rparr>"




section \<open>Statements on the table\<close>

text \<open>What a session reads after an update.\<close>

lemma fetchone_select_update:
  "fetchone (select_balance (update_balance f k rows) j) =
     (if j = k then map_option f (fetchone (select_balance rows j))
      else fetchone (select_balance rows j))"
  by (induction rows) (auto simp: select_balance_def update_balance_def fetchone_def)





section \<open>The two outcomes of transfer_funds on an existing source\<close>


lemma transfer_funds_returns:
  assumes "transfer_funds conn frm to a = (None, conn')"
  shows "\<exists>b. balance_of conn frm = Some b \<and> a \<le> b \<and>
     conn' = conn\<lparr>working := update_balance (\<lambda>balance. balance + a) to
                               (update_balance (\<lambda>balance. balance - a) frm (working conn))\<rparr>"
  using assms by (auto simp: transfer_funds_def balance_of_def split: option.splits if_splits)

section \<open>A successful transfer\<close>

text \<open>
  C1, as amended. For every call of \<open>transfer_funds\<close> that returns, moving an amount
  \<open>a\<close> (in particular a positive one) from a source with balance \<open>b1\<close> to a destination
  with balance \<open>b2\<close>, where source and destination are two different accounts: afterwards
  the source holds \<open>b1 - a\<close>, the destination \<open>b2 + a\<close>, and the sum of the two balances
  is \<open>b1 + b2\<close> as before.
\<close>

theorem transfer_funds_moves_amount:
  assumes "transfer_funds conn frm to a = (None, conn')"
    and "balance_of conn frm = Some b1" and "balance_of conn to = Some b2" and "frm \<noteq> to"
  shows "balance_of conn' frm = Some (b1 - a) \<and> balance_of conn' to = Some (b2 + a)
     \<and> (\<exists>x y. balance_of conn' frm = Some x \<and> balance_of conn' to = Some y \<and> x + y = b1 + b2)"
proof -
  from transfer_funds_returns [OF assms(1)]
  have conn': "conn' = conn\<lparr>working := update_balance (\<lambda>balance. balance + a) to
                               (update_balance (\<lambda>balance. balance - a) frm (working conn))\<rparr>"
    by blast
  have "balance_of conn' frm = Some (b1 - a)"
    using assms(2,4) by (simp add: conn' balance_of_def fetchone_select_update)
  moreover have "balance_of conn' to = Some (b2 + a)"
    using assms(3,4) by (simp add: conn' balance_of_def fetchone_select_update)
  ultimately show ?thesis by simp
qed

text \<open>The transfer of \<^verbatim>\<open>execute_workload\<close>: 100 from the account with 1000 to the account
  with 250 leaves 900 and 350.\<close>

theorem transfer_funds_moves_amount_witness:
  "transfer_funds (demo ()) 1 2 100 =
     (None, \<lparr>committed = [(1, 1000), (2, 250)], working = [(1, 900), (2, 350)], env = ()\<rparr>)
   \<and> balance_of (demo ()) 1 = Some 1000 \<and> balance_of (demo ()) 2 = Some 250
   \<and> (1 :: uuid) \<noteq> 2
   \<and> balance_of \<lparr>committed = [(1, 1000), (2, 250)], working = [(1, 900), (2, 350)], env = ()\<rparr> 1
       = Some (1000 - 100)
   \<and> balance_of \<lparr>committed = [(1, 1000), (2, 250)], working = [(1, 900), (2, 350)], env = ()\<rparr> 2
       = Some (250 + 100)"
proof -
  let ?c' = "\<lparr>committed = [(1, 1000), (2, 250)], working = [(1::uuid, 900::int), (2, 350)], env = ()\<rparr>"
  have run: "transfer_funds (demo ()) 1 2 100 = (None, ?c')"
    by (simp add: transfer_funds_def demo_def select_balance_def fetchone_def update_balance_def)
  have b1: "balance_of (demo ()) 1 = Some 1000" and b2: "balance_of (demo ()) 2 = Some 250"
    by (simp_all add: demo_def balance_of_def select_balance_def fetchone_def)
  have ne: "(1 :: uuid) \<noteq> 2" by simp
  from transfer_funds_moves_amount [OF run b1 b2 ne] run b1 b2 ne show ?thesis by simp
qed


text \<open>
  Without the two accounts being different the first two statements fail: a transfer of 100
  from the account with 1000 to itself returns, the second update undoes the first, and
  the account holds 1000, neither \<open>1000 - 100\<close> nor \<open>1000 + 100\<close>.
\<close>

theorem transfer_funds_self_counterexample:
  "transfer_funds (demo ()) 1 1 100 = (None, demo ())
   \<and> (0 :: int) < 100
   \<and> balance_of (demo ()) 1 = Some 1000
   \<and> balance_of (snd (transfer_funds (demo ()) 1 1 100)) 1 = Some 1000
   \<and> balance_of (snd (transfer_funds (demo ()) 1 1 100)) 1 \<noteq> Some (1000 - 100)
   \<and> balance_of (snd (transfer_funds (demo ()) 1 1 100)) 1 \<noteq> Some (1000 + 100)"
  by (simp add: transfer_funds_def demo_def balance_of_def select_balance_def fetchone_def
      update_balance_def)

section \<open>Insufficient funds\<close>

text \<open>
  C2. When the balance \<open>b\<close> read for the source is less than the amount \<open>a\<close>,
  \<open>transfer_funds\<close> raises the insufficient-funds error, which carries the source id,
  the available balance and the required amount, and the connection is left as it was:
  no balance changes, that of the source and that of the destination included.
\<close>

theorem transfer_funds_insufficient:
  assumes "balance_of conn frm = Some b" and "b < a"
  shows "transfer_funds conn frm to a = (Some (RuntimeError frm b a), conn)"
  using assms by (simp add: transfer_funds_def balance_of_def)

text \<open>The transfer of 2000 from the account with 250.\<close>

theorem transfer_funds_insufficient_witness:
  "balance_of (demo ()) 2 = Some 250
   \<and> (250 :: int) < 2000
   \<and> transfer_funds (demo ()) 2 1 2000 = (Some (RuntimeError 2 250 2000), demo ())"
proof -
  have b: "balance_of (demo ()) 2 = Some 250"
    by (simp add: demo_def balance_of_def select_balance_def fetchone_def)
  have lt: "(250 :: int) < 2000"
    by simp
  from transfer_funds_insufficient [OF b lt, of 1] b lt show ?thesis
    by simp
qed

section \<open>Amounts that are not positive\<close>



section \<open>A destination that does not exist\<close>



section \<open>The loop of run_transaction\<close>











section \<open>The retry bound\<close>



section \<open>Success after conflicts\<close>



section \<open>Other exceptions\<close>



section \<open>Nothing is committed on an error\<close>



section \<open>No attempt at all\<close>




end
